theory Spec2Isabelle
  imports Main "HOL-Library.Word"
begin

section \<open>Images\<close>

text \<open>
  The program of \<^verbatim>\<open>examples/opencv/example.cpp\<close> loads its input with the flag
  \<^verbatim>\<open>IMREAD_COLOR\<close>: the matrix it works on has 8-bit unsigned channel values. A
  matrix is the list of its rows, a row the list of its pixels, a pixel the list of its
  channel values.
\<close>

type_synonym uchar = "8 word"

type_synonym Mat = "uchar list list list"

definition rows :: "Mat \<Rightarrow> nat" where
  "rows m = length m"

definition cols :: "Mat \<Rightarrow> nat" where
  "cols m = (case m of [] \<Rightarrow> 0 | r # _ \<Rightarrow> length r)"

definition channels :: "Mat \<Rightarrow> nat" where
  "channels m = (case m of (p # _) # _ \<Rightarrow> length p | _ \<Rightarrow> 0)"

definition Mat_empty :: "Mat \<Rightarrow> bool" where
  "Mat_empty m = (rows m = 0 \<or> cols m = 0)"

definition at :: "Mat \<Rightarrow> nat \<Rightarrow> nat \<Rightarrow> nat \<Rightarrow> uchar" where
  "at m y x c = m ! y ! x ! c"

text \<open>
  A valid image is not empty and rectangular: every row has \<open>cols\<close> pixels and every
  pixel has \<open>channels\<close> values.
\<close>

definition valid :: "Mat \<Rightarrow> bool" where
  "valid m = (\<not> Mat_empty m \<and>
     list_all (\<lambda>r. length r = cols m \<and> list_all (\<lambda>p. length p = channels m) r) m)"

text \<open>The image of \<open>h\<close> rows and \<open>w\<close> columns whose every pixel is \<open>color\<close>.\<close>

definition solid :: "nat \<Rightarrow> nat \<Rightarrow> uchar list \<Rightarrow> Mat" where
  "solid h w color = replicate h (replicate w color)"

section \<open>The library's morphology\<close>

datatype MorphShapes = MORPH_RECT

datatype Size = Size int int

datatype Point = Point int int

record element =
  el_shape :: MorphShapes
  el_size :: Size
  el_anchor :: Point

text \<open>
  Modelled from the spec: \<^verbatim>\<open>getStructuringElement\<close> is the library's, not under src/.
  The spec's structuring element is a read-only rectangular kernel with a side length
  and an anchor; the model keeps the three arguments of the call.
\<close>

definition getStructuringElement :: "MorphShapes \<Rightarrow> Size \<Rightarrow> Point \<Rightarrow> element" where
  "getStructuringElement sh ksize anchor =
     \<lparr>el_shape = sh, el_size = ksize, el_anchor = anchor\<rparr>"

text \<open>
  The footprint of an element: the offsets (row, column) of its cells from the anchor.
  Every cell of a rectangular kernel belongs to it.
\<close>

definition footprint :: "element \<Rightarrow> (int \<times> int) list" where
  "footprint e =
     (case el_size e of Size w h \<Rightarrow>
      case el_anchor e of Point ax ay \<Rightarrow>
        concat (map (\<lambda>ky. map (\<lambda>kx. (ky - ay, kx - ax)) [0..w - 1]) [0..h - 1]))"

text \<open>
  Modelled from the spec: the border policy of the library's \<^verbatim>\<open>dilate\<close> and
  \<^verbatim>\<open>erode\<close>. The spec names an edge-replication/reflection policy for the kernel
  positions that fall outside the image and leaves the exact policy to the library, so
  the policy is a parameter: for an axis of length \<open>n\<close> and a coordinate \<open>i\<close> outside
  \<open>0..<n\<close> it names the coordinate of the pixel that stands for position \<open>i\<close>, or
  \<open>None\<close> when the position contributes nothing. A coordinate inside the image is
  itself; an answer of the policy that is not a coordinate of the image contributes
  nothing.
\<close>

type_synonym border = "nat \<Rightarrow> int \<Rightarrow> nat option"

definition locate :: "border \<Rightarrow> nat \<Rightarrow> int \<Rightarrow> nat option" where
  "locate bd n i =
     (if 0 \<le> i \<and> i < int n then Some (nat i)
      else case bd n i of
             None \<Rightarrow> None
           | Some j \<Rightarrow> if j < n then Some j else None)"

text \<open>The channel-\<open>c\<close> values under the footprint of \<open>e\<close> anchored at pixel \<open>(y, x)\<close>.\<close>

definition window :: "border \<Rightarrow> element \<Rightarrow> Mat \<Rightarrow> nat \<Rightarrow> nat \<Rightarrow> nat \<Rightarrow> uchar list" where
  "window bd e m y x c =
     concat (map (\<lambda>(dy, dx).
        case locate bd (rows m) (int y + dy) of
          None \<Rightarrow> []
        | Some y' \<Rightarrow>
           (case locate bd (cols m) (int x + dx) of
              None \<Rightarrow> []
            | Some x' \<Rightarrow> [at m y' x' c])) (footprint e))"

text \<open>
  Modelled from the spec: \<^verbatim>\<open>dilate\<close> and \<^verbatim>\<open>erode\<close> are the library's, not under
  src/. For every output pixel and channel, dilate takes the maximum and erode the
  minimum of the values under the footprint. The output has the rows, columns and
  channels of the source. The maximum starts from the least and the minimum from the
  greatest 8-bit value.
\<close>

definition morph :: "(uchar list \<Rightarrow> uchar) \<Rightarrow> border \<Rightarrow> Mat \<Rightarrow> element \<Rightarrow> Mat" where
  "morph f bd src e =
     map (\<lambda>y. map (\<lambda>x. map (\<lambda>c. f (window bd e src y x c))
       [0..<channels src]) [0..<cols src]) [0..<rows src]"

definition dilate :: "border \<Rightarrow> Mat \<Rightarrow> element \<Rightarrow> Mat" where
  "dilate bd src e = morph (\<lambda>ws. fold max ws 0) bd src e"

definition erode :: "border \<Rightarrow> Mat \<Rightarrow> element \<Rightarrow> Mat" where
  "erode bd src e = morph (\<lambda>ws. fold min ws 255) bd src e"

section \<open>The environment of a run\<close>

text \<open>
  What the program writes to standard output, as the sequence of the operands of its
  \<^verbatim>\<open><<\<close> chains. \<open>ParserErrors\<close> is the report that the library's
  \<^verbatim>\<open>parser.printErrors()\<close> prints.
\<close>

datatype out = Str string | Num int | Endl | ParserErrors

text \<open>
  A file either decodes, as a color image, to a matrix, or is not an image. A file
  system maps paths to files; a path that is not mapped is a missing or unreadable file.
\<close>

datatype entry = ImageFile Mat | OtherFile

type_synonym fs = "string \<rightharpoonup> entry"

text \<open>
  The parts of a run that the source takes from outside: the border policy of the
  library, the library's resolution of the input path (\<^verbatim>\<open>samples::findFile\<close>), the
  file system at the start, the names under which a write succeeds, and the number of
  microseconds between the two readings of the clock around the transform
  (\<^verbatim>\<open>duration_cast<microseconds>(stop - start).count()\<close>).
\<close>

record env =
  border_policy :: border
  findFile :: "string \<Rightarrow> string"
  files :: fs
  writable :: "string \<Rightarrow> bool"
  elapsed :: int

text \<open>
  Modelled from the spec: \<^verbatim>\<open>imread\<close> and \<^verbatim>\<open>imwrite\<close> are the library's, not
  under src/. Loading yields the empty matrix when the file is missing, unreadable or
  not a valid image. Writing stores the image under the name, overwriting any existing
  file, and answers \<open>True\<close>; a write that fails (permission denied, disk full) stores
  nothing and answers \<open>False\<close>.
\<close>

definition imread :: "fs \<Rightarrow> string \<Rightarrow> Mat" where
  "imread disk path = (case disk path of Some (ImageFile m) \<Rightarrow> m | _ \<Rightarrow> [])"

definition imwrite :: "(string \<Rightarrow> bool) \<Rightarrow> fs \<Rightarrow> string \<Rightarrow> Mat \<Rightarrow> bool \<times> fs" where
  "imwrite ok disk name m =
     (if ok name then (True, disk(name \<mapsto> ImageFile m)) else (False, disk))"

section \<open>The transforms\<close>

definition morph_size :: int where
  "morph_size = 5"

definition Dilation :: "env \<Rightarrow> Mat \<Rightarrow> Mat \<times> out list" where
  "Dilation env src =
     (let element = getStructuringElement MORPH_RECT
                      (Size (2 * morph_size + 1) (2 * morph_size + 1))
                      (Point morph_size morph_size);
          dst = dilate (border_policy env) src element;
          duration = elapsed env
      in (dst, [Str ''Time taken to dilate: '', Num duration, Str '' microseconds'', Endl]))"

definition Erosion :: "env \<Rightarrow> Mat \<Rightarrow> Mat \<times> out list" where
  "Erosion env src =
     (let element = getStructuringElement MORPH_RECT
                      (Size (2 * morph_size + 1) (2 * morph_size + 1))
                      (Point morph_size morph_size);
          dst = erode (border_policy env) src element;
          duration = elapsed env
      in (dst, [Str ''Time taken to erode: '', Num duration, Str '' microseconds'', Endl]))"

section \<open>The command line\<close>

text \<open>
  The constant \<^verbatim>\<open>keys\<close> of the source, one entry for each pair of braces: the
  names, the default value and the help text.
\<close>

record key =
  names :: "string list"
  def_value :: string
  help_message :: string

definition keys :: "key list" where
  "keys =
     [\<lparr>names = [''@input''], def_value = ''<none>'', help_message = ''input image''\<rparr>,
      \<lparr>names = [''@morph'', ''?''], def_value = ''dilate'',
        help_message = ''morph operation (erode|dilate)''\<rparr>]"

text \<open>
  Modelled from the spec: \<^verbatim>\<open>CommandLineParser\<close> is the library's, not under src/.
  The spec's command line has positional inputs only, the input path and then the
  operation name; an operation that is not given takes its default; a wrong number of
  arguments is rejected. The model gives the arguments to the keys in order. It rejects
  when there are more arguments than keys, or when a key whose default is
  \<^verbatim>\<open><none>\<close> got no argument.
\<close>

record parser =
  error :: bool
  data :: "(key \<times> string option) list"

fun assign :: "key list \<Rightarrow> string list \<Rightarrow> (key \<times> string option) list" where
  "assign [] args = []"
| "assign (k # ks) [] = (k, None) # assign ks []"
| "assign (k # ks) (a # as) = (k, Some a) # assign ks as"

definition missing :: "key \<times> string option \<Rightarrow> bool" where
  "missing kv = (snd kv = None \<and> def_value (fst kv) = ''<none>'')"

definition CommandLineParser :: "string list \<Rightarrow> key list \<Rightarrow> parser" where
  "CommandLineParser args ks =
     \<lparr>error = (length ks < length args \<or> list_ex missing (assign ks args)),
      data = assign ks args\<rparr>"

definition check :: "parser \<Rightarrow> bool" where
  "check p = (\<not> error p)"

definition get :: "parser \<Rightarrow> string \<Rightarrow> string" where
  "get p name =
     (case find (\<lambda>kv. name \<in> set (names (fst kv))) (data p) of
        None \<Rightarrow> []
      | Some (k, None) \<Rightarrow> def_value k
      | Some (k, Some a) \<Rightarrow> a)"

section \<open>The program\<close>

definition printUsage :: "string \<Rightarrow> out list" where
  "printUsage prog_name =
     [Str ''Usage: '', Str prog_name, Str '' <Input image> [erode|dilate]'', Endl]"

text \<open>
  What a run leaves behind: the exit code, the standard output and the file system.
\<close>

record result =
  exit_code :: int
  stdout :: "out list"
  disk :: fs

text \<open>
  \<^verbatim>\<open>main\<close>, called with the program name \<^verbatim>\<open>argv[0]\<close> and the arguments after
  it. The two messages of the source end in a newline character, followed by
  \<^verbatim>\<open>endl\<close>. The source does not look at the answer of \<^verbatim>\<open>imwrite\<close>: it
  returns 0 after the call, whether the write succeeded or not.
\<close>

definition main :: "env \<Rightarrow> string \<Rightarrow> string list \<Rightarrow> result" where
  "main env prog args =
     (let parser = CommandLineParser args keys in
      if \<not> check parser then
        \<lparr>exit_code = 1, stdout = [ParserErrors], disk = files env\<rparr>
      else
        let morph_type = get parser ''@morph'';
            src = imread (files env) (findFile env (get parser ''@input''))
        in
          if Mat_empty src then
            \<lparr>exit_code = 1,
             stdout = [Str (''Could not open or find the image!'' @ [CHR 0x0A]), Endl]
                        @ printUsage prog,
             disk = files env\<rparr>
          else if morph_type = ''dilate'' then
            (case Dilation env src of (dst, printed) \<Rightarrow>
               \<lparr>exit_code = 0, stdout = printed,
                disk = snd (imwrite (writable env) (files env) ''output.png'' dst)\<rparr>)
          else if morph_type = ''erode'' then
            (case Erosion env src of (dst, printed) \<Rightarrow>
               \<lparr>exit_code = 0, stdout = printed,
                disk = snd (imwrite (writable env) (files env) ''output.png'' dst)\<rparr>)
          else
            \<lparr>exit_code = 1,
             stdout = [Str (''Invalid morph operation!'' @ [CHR 0x0A]), Endl]
                        @ printUsage prog,
             disk = files env\<rparr>)"

section \<open>Sample inputs\<close>

text \<open>
  Concrete inputs on which the theorems below are instantiated: the policy that
  replicates the edge pixel, a 2 by 2 image of three channels, and a run environment
  whose file system holds that image and a text file and accepts every write.
\<close>

definition replicate_border :: border where
  "replicate_border n i = Some (if i < 0 then 0 else n - 1)"

definition sample_image :: Mat where
  "sample_image = [[[1, 2, 3], [9, 0, 3]], [[4, 200, 3], [5, 5, 5]]]"

definition sample_env :: env where
  "sample_env =
     \<lparr>border_policy = replicate_border,
      findFile = (\<lambda>p. p),
      files = [''in.png'' \<mapsto> ImageFile sample_image, ''notes.txt'' \<mapsto> OtherFile],
      writable = (\<lambda>name. True),
      elapsed = 42\<rparr>"

section \<open>Facts about the morphology\<close>

lemma locate_inside: "i < n \<Longrightarrow> locate bd n (int i) = Some i"
  by (simp add: locate_def)

lemma locate_Some: "locate bd n i = Some j \<Longrightarrow> j < n"
  by (auto simp: locate_def split: if_splits option.splits)

lemma window_centre:
  assumes "(0, 0) \<in> set (footprint e)" "y < rows m" "x < cols m"
  shows "at m y x c \<in> set (window bd e m y x c)"
proof -
  have "at m y x c \<in> set (case locate bd (rows m) (int y + 0) of
          None \<Rightarrow> []
        | Some y' \<Rightarrow>
           (case locate bd (cols m) (int x + 0) of
              None \<Rightarrow> []
            | Some x' \<Rightarrow> [at m y' x' c]))"
    using assms(2,3) by (simp add: locate_inside)
  with assms(1) show ?thesis
    unfolding window_def set_concat set_map by force
qed

lemma window_sub:
  assumes "v \<in> set (window bd e m y x c)"
  shows "\<exists>y' x'. y' < rows m \<and> x' < cols m \<and> v = at m y' x' c"
proof -
  from assms obtain dy dx where
    v: "v \<in> set (case locate bd (rows m) (int y + dy) of
          None \<Rightarrow> []
        | Some y' \<Rightarrow>
           (case locate bd (cols m) (int x + dx) of
              None \<Rightarrow> []
            | Some x' \<Rightarrow> [at m y' x' c]))"
    unfolding window_def by auto
  then obtain y' x' where l: "locate bd (rows m) (int y + dy) = Some y'"
      "locate bd (cols m) (int x + dx) = Some x'" and "v = at m y' x' c"
    by (cases "locate bd (rows m) (int y + dy)"; cases "locate bd (cols m) (int x + dx)") auto
  then show ?thesis using locate_Some by blast
qed

lemma fold_max_mono: "(a::uchar) \<le> fold max ws a"
proof (induction ws arbitrary: a)
  case Nil show ?case by simp
next
  case (Cons w ws)
  have "a \<le> max w a" by simp
  also have "\<dots> \<le> fold max ws (max w a)" by (rule Cons.IH)
  finally show ?case by simp
qed

lemma fold_max_ge: "v \<in> set ws \<Longrightarrow> (v::uchar) \<le> fold max ws a"
proof (induction ws arbitrary: a)
  case Nil then show ?case by simp
next
  case (Cons w ws)
  show ?case
  proof (cases "v = w")
    case True
    have "v \<le> max w a" using True by simp
    also have "\<dots> \<le> fold max ws (max w a)" by (rule fold_max_mono)
    finally show ?thesis by simp
  next
    case False
    with Cons.prems have "v \<in> set ws" by simp
    then show ?thesis using Cons.IH by simp
  qed
qed

lemma fold_min_mono: "fold min ws a \<le> (a::uchar)"
proof (induction ws arbitrary: a)
  case Nil show ?case by simp
next
  case (Cons w ws)
  have "fold min ws (min w a) \<le> min w a" by (rule Cons.IH)
  also have "\<dots> \<le> a" by simp
  finally show ?case by simp
qed

lemma fold_min_le: "v \<in> set ws \<Longrightarrow> fold min ws a \<le> (v::uchar)"
proof (induction ws arbitrary: a)
  case Nil then show ?case by simp
next
  case (Cons w ws)
  show ?case
  proof (cases "v = w")
    case True
    have "fold min ws (min w a) \<le> min w a" by (rule fold_min_mono)
    also have "\<dots> \<le> v" using True by simp
    finally show ?thesis by simp
  next
    case False
    with Cons.prems have "v \<in> set ws" by simp
    then show ?thesis using Cons.IH by simp
  qed
qed

lemma fold_max_const: "set ws \<subseteq> {v} \<Longrightarrow> a \<le> v \<Longrightarrow> ws \<noteq> [] \<Longrightarrow> fold max ws a = (v::uchar)"
proof (induction ws arbitrary: a)
  case Nil then show ?case by simp
next
  case (Cons w ws)
  then have w: "w = v" by simp
  show ?case
  proof (cases "ws = []")
    case True then show ?thesis using w Cons.prems(2) by (simp add: max_def)
  next
    case False
    have "fold max ws (max w a) = v"
      using Cons.prems(1) w False by (intro Cons.IH) (simp_all add: Cons.prems(2))
    then show ?thesis by simp
  qed
qed

lemma fold_min_const: "set ws \<subseteq> {v} \<Longrightarrow> v \<le> a \<Longrightarrow> ws \<noteq> [] \<Longrightarrow> fold min ws a = (v::uchar)"
proof (induction ws arbitrary: a)
  case Nil then show ?case by simp
next
  case (Cons w ws)
  then have w: "w = v" by simp
  show ?case
  proof (cases "ws = []")
    case True then show ?thesis using w Cons.prems(2) by (simp add: min_def)
  next
    case False
    have "fold min ws (min w a) = v"
      using Cons.prems(1) w False by (intro Cons.IH) (simp_all add: Cons.prems(2))
    then show ?thesis by simp
  qed
qed

lemma uchar_le_255: "(v::uchar) \<le> 255"
proof -
  have "(255::uchar) = - 1" by simp
  then show ?thesis by (simp only: word_n1_ge)
qed

lemma rows_morph: "rows (morph f bd src e) = rows src"
  by (simp add: morph_def rows_def)

lemma cols_morph: "cols (morph f bd src e) = cols src"
proof (cases src)
  case Nil
  then show ?thesis by (simp add: morph_def cols_def rows_def)
next
  case (Cons r rs)
  have "[0..<rows src] = 0 # [Suc 0..<rows src]"
    using Cons by (simp add: rows_def upt_conv_Cons del: upt_Suc)
  then show ?thesis using Cons by (simp add: morph_def cols_def)
qed

lemma channels_morph:
  assumes "\<not> Mat_empty src"
  shows "channels (morph f bd src e) = channels src"
proof -
  from assms obtain rs p ps where src: "src = (p # ps) # rs"
    by (cases src; cases "hd src") (auto simp: Mat_empty_def rows_def cols_def)
  have r: "[0..<rows src] = 0 # [Suc 0..<rows src]"
    using src by (simp add: rows_def upt_conv_Cons del: upt_Suc)
  have c: "[0..<cols src] = 0 # [Suc 0..<cols src]"
    using src by (simp add: cols_def upt_conv_Cons del: upt_Suc)
  have "channels (morph f bd src e) = length [0..<channels src]"
    unfolding morph_def r c by (simp add: channels_def)
  then show ?thesis by simp
qed

lemma at_morph:
  "y < rows src \<Longrightarrow> x < cols src \<Longrightarrow> c < channels src \<Longrightarrow>
   at (morph f bd src e) y x c = f (window bd e src y x c)"
  by (simp add: morph_def at_def rows_def)

lemma pairs_image: "(\<Union>a\<in>A. (\<lambda>b. (f a, g b)) ` B) = (f ` A) \<times> (g ` B)"
  by auto

lemma footprint_program:
  "set (footprint (getStructuringElement MORPH_RECT (Size 11 11) (Point 5 5))) = {-5..5} \<times> {-5..5}"
proof -
  have img: "(\<lambda>k. k - 5) ` {0..10::int} = {-5..5}"
  proof (intro set_eqI iffI)
    fix d :: int assume "d \<in> {-5..5}"
    then have "d = (d + 5) - 5" "d + 5 \<in> {0..10}" by auto
    then show "d \<in> (\<lambda>k. k - 5) ` {0..10}" by (rule image_eqI)
  qed auto
  have "(\<Union>ky\<in>{0..10::int}. (\<lambda>kx. (ky - 5, kx - 5)) ` {0..10::int})
          = ((\<lambda>k. k - 5) ` {0..10}) \<times> ((\<lambda>k. k - 5) ` {0..10})"
    by (rule pairs_image)
  then have "(\<Union>ky\<in>{0..10::int}. (\<lambda>kx. (ky - 5, kx - 5)) ` {0..10::int}) = {-5..5} \<times> {-5..5}"
    by (simp only: img)
  then show ?thesis
    by (simp add: footprint_def getStructuringElement_def)
qed

lemma length_footprint:
  "length (footprint (getStructuringElement MORPH_RECT (Size 11 11) (Point 5 5))) = 121"
  by (simp add: footprint_def getStructuringElement_def length_concat comp_def sum_list_triv)

section \<open>Facts about the transforms\<close>

lemma Dilation_fst:
  "fst (Dilation env src) =
     morph (\<lambda>ws. fold max ws 0) (border_policy env) src
       (getStructuringElement MORPH_RECT (Size 11 11) (Point 5 5))"
  by (simp add: Dilation_def dilate_def morph_size_def Let_def)

lemma Erosion_fst:
  "fst (Erosion env src) =
     morph (\<lambda>ws. fold min ws 255) (border_policy env) src
       (getStructuringElement MORPH_RECT (Size 11 11) (Point 5 5))"
  by (simp add: Erosion_def erode_def morph_size_def Let_def)

lemma centre_in_footprint:
  "(0, 0) \<in> set (footprint (getStructuringElement MORPH_RECT (Size 11 11) (Point 5 5)))"
  by (simp add: footprint_program)

lemma valid_sample: "valid sample_image"
  by (simp add: valid_def sample_image_def Mat_empty_def rows_def cols_def channels_def)

lemma dims_sample:
  "rows sample_image = 2" "cols sample_image = 2" "channels sample_image = 3"
  by (simp_all add: sample_image_def rows_def cols_def channels_def)

lemma solid_morph:
  assumes f: "\<And>ws v. set ws \<subseteq> {v} \<Longrightarrow> ws \<noteq> [] \<Longrightarrow> f ws = v"
  shows "morph f bd (solid h w color)
           (getStructuringElement MORPH_RECT (Size 11 11) (Point 5 5)) = solid h w color"
proof (cases "h = 0 \<or> w = 0")
  case True
  then show ?thesis
    by (cases h) (auto simp: morph_def solid_def rows_def cols_def map_replicate_const)
next
  case False
  then have h: "0 < h" and w: "0 < w" by simp_all
  let ?m = "solid h w color"
  let ?e = "getStructuringElement MORPH_RECT (Size 11 11) (Point 5 5)"
  have r: "rows ?m = h" by (simp add: solid_def rows_def)
  have c: "cols ?m = w" using h by (cases h) (simp_all add: solid_def cols_def)
  have ch: "channels ?m = length color"
    using h w by (cases h; cases w) (simp_all add: solid_def channels_def)
  have px: "f (window bd ?e ?m y x k) = color ! k" if "y < h" "x < w" for y x k
  proof (rule f)
    have "at ?m y x k \<in> set (window bd ?e ?m y x k)"
      using centre_in_footprint by (rule window_centre) (simp_all add: r c that)
    then show "window bd ?e ?m y x k \<noteq> []" by auto
    show "set (window bd ?e ?m y x k) \<subseteq> {color ! k}"
    proof
      fix v assume "v \<in> set (window bd ?e ?m y x k)"
      then obtain y' x' where "y' < rows ?m" "x' < cols ?m" and v: "v = at ?m y' x' k"
        using window_sub by blast
      then have "y' < h" "x' < w" by (simp_all only: r c)
      then show "v \<in> {color ! k}" by (simp add: v at_def solid_def)
    qed
  qed
  have pixel: "map (\<lambda>k. f (window bd ?e ?m y x k)) [0..<length color] = color"
    if "y < h" "x < w" for y x
  proof -
    have "map (\<lambda>k. f (window bd ?e ?m y x k)) [0..<length color]
            = map (\<lambda>k. color ! k) [0..<length color]"
      by (rule map_cong[OF refl]) (simp add: px[OF that])
    then show ?thesis by (simp add: map_nth)
  qed
  have row: "map (\<lambda>x. map (\<lambda>k. f (window bd ?e ?m y x k)) [0..<length color]) [0..<w]
               = replicate w color" if "y < h" for y
  proof -
    have "map (\<lambda>x. map (\<lambda>k. f (window bd ?e ?m y x k)) [0..<length color]) [0..<w]
            = map (\<lambda>x. color) [0..<w]"
      by (rule map_cong[OF refl]) (simp add: pixel[OF that])
    then show ?thesis by (simp add: map_replicate_const)
  qed
  have "map (\<lambda>y. map (\<lambda>x. map (\<lambda>k. f (window bd ?e ?m y x k))
                [0..<length color]) [0..<w]) [0..<h]
          = map (\<lambda>y. replicate w color) [0..<h]"
    by (rule map_cong[OF refl]) (simp add: row)
  then have "map (\<lambda>y. map (\<lambda>x. map (\<lambda>k. f (window bd ?e ?m y x k))
                [0..<length color]) [0..<w]) [0..<h] = replicate h (replicate w color)"
    by (simp add: map_replicate_const)
  then show ?thesis
    unfolding morph_def r c ch by (simp add: solid_def)
qed

text \<open>The two transforms evaluated on the sample image.\<close>

lemma Dilation_sample:
  "fst (Dilation sample_env sample_image) = [[[9, 200, 5], [9, 200, 5]], [[9, 200, 5], [9, 200, 5]]]"
  by code_simp

lemma Erosion_sample:
  "fst (Erosion sample_env sample_image) = [[[1, 0, 3], [1, 0, 3]], [[1, 0, 3], [1, 0, 3]]]"
  by code_simp

section \<open>Facts about the command line and the files\<close>

lemma check_iff: "check (CommandLineParser args keys) \<longleftrightarrow> length args = 1 \<or> length args = 2"
proof (cases args)
  case Nil
  then show ?thesis by (simp add: check_def CommandLineParser_def keys_def missing_def)
next
  case (Cons a as)
  note outer = Cons
  show ?thesis
  proof (cases as)
    case Nil
    then show ?thesis using outer
      by (simp add: check_def CommandLineParser_def keys_def missing_def)
  next
    case (Cons b bs)
    then show ?thesis using outer
      by (cases bs) (simp_all add: check_def CommandLineParser_def keys_def missing_def)
  qed
qed

lemma get_one:
  "get (CommandLineParser [path] keys) ''@input'' = path"
  "get (CommandLineParser [path] keys) ''@morph'' = ''dilate''"
  by (simp_all add: get_def CommandLineParser_def keys_def)

lemma get_two:
  "get (CommandLineParser [path, op] keys) ''@input'' = path"
  "get (CommandLineParser [path, op] keys) ''@morph'' = op"
  by (simp_all add: get_def CommandLineParser_def keys_def)

lemma check_one: "check (CommandLineParser [path] keys)"
  by (simp add: check_iff)

lemma check_two: "check (CommandLineParser [path, op] keys)"
  by (simp add: check_iff)

lemma imread_empty_iff:
  "Mat_empty (imread d p) \<longleftrightarrow>
     (case d p of Some (ImageFile m) \<Rightarrow> Mat_empty m | _ \<Rightarrow> True)"
  by (simp add: imread_def Mat_empty_def rows_def split: option.split entry.split)

lemma loads_sample:
  "\<not> Mat_empty (imread (files sample_env) (findFile sample_env ''in.png''))"
  by (simp add: sample_env_def imread_def sample_image_def Mat_empty_def rows_def cols_def)

lemma missing_sample:
  "Mat_empty (imread (files sample_env) (findFile sample_env ''missing.png''))"
  by (simp add: sample_env_def imread_def Mat_empty_def rows_def)

lemma reads_sample:
  "imread (files sample_env) (findFile sample_env ''in.png'') = sample_image"
  by (simp add: sample_env_def imread_def)

section \<open>The claims\<close>

text \<open>
  C1. For every valid image, the image that \<open>Dilation\<close> returns has the rows, columns
  and channels of its input, and each of its values is greater than or equal to the
  input's value at the same row, column and channel. This holds under every border
  policy, at the edges of the image too.
\<close>

theorem dilate_extensive:
  assumes "valid src"
  shows "rows (fst (Dilation env src)) = rows src \<and>
         cols (fst (Dilation env src)) = cols src \<and>
         channels (fst (Dilation env src)) = channels src \<and>
         (\<forall>y < rows src. \<forall>x < cols src. \<forall>c < channels src.
            at src y x c \<le> at (fst (Dilation env src)) y x c)"
proof -
  from assms have ne: "\<not> Mat_empty src" by (simp add: valid_def)
  have px: "at src y x c \<le> at (fst (Dilation env src)) y x c"
    if "y < rows src" "x < cols src" "c < channels src" for y x c
  proof -
    have "at src y x c \<in> set (window (border_policy env)
            (getStructuringElement MORPH_RECT (Size 11 11) (Point 5 5)) src y x c)"
      using centre_in_footprint that(1,2) by (rule window_centre)
    then show ?thesis
      unfolding Dilation_fst at_morph[OF that] by (rule fold_max_ge)
  qed
  show ?thesis
    using px by (simp add: Dilation_fst rows_morph cols_morph channels_morph[OF ne])
qed

theorem dilate_extensive_witness:
  "valid sample_image \<and>
   at sample_image 1 0 1 \<le> at (fst (Dilation sample_env sample_image)) 1 0 1"
proof -
  have "\<forall>y < rows sample_image. \<forall>x < cols sample_image. \<forall>c < channels sample_image.
          at sample_image y x c \<le> at (fst (Dilation sample_env sample_image)) y x c"
    using dilate_extensive[OF valid_sample, of sample_env] by blast
  then show ?thesis
    using valid_sample by (simp add: dims_sample)
qed

text \<open>
  C2. For every valid image, the image that \<open>Erosion\<close> returns has the rows, columns
  and channels of its input, and each of its values is less than or equal to the
  input's value at the same row, column and channel.
\<close>

theorem erode_anti_extensive:
  assumes "valid src"
  shows "rows (fst (Erosion env src)) = rows src \<and>
         cols (fst (Erosion env src)) = cols src \<and>
         channels (fst (Erosion env src)) = channels src \<and>
         (\<forall>y < rows src. \<forall>x < cols src. \<forall>c < channels src.
            at (fst (Erosion env src)) y x c \<le> at src y x c)"
proof -
  from assms have ne: "\<not> Mat_empty src" by (simp add: valid_def)
  have px: "at (fst (Erosion env src)) y x c \<le> at src y x c"
    if "y < rows src" "x < cols src" "c < channels src" for y x c
  proof -
    have "at src y x c \<in> set (window (border_policy env)
            (getStructuringElement MORPH_RECT (Size 11 11) (Point 5 5)) src y x c)"
      using centre_in_footprint that(1,2) by (rule window_centre)
    then show ?thesis
      unfolding Erosion_fst at_morph[OF that] by (rule fold_min_le)
  qed
  show ?thesis
    using px by (simp add: Erosion_fst rows_morph cols_morph channels_morph[OF ne])
qed

theorem erode_anti_extensive_witness:
  "valid sample_image \<and>
   at (fst (Erosion sample_env sample_image)) 0 1 0 \<le> at sample_image 0 1 0"
proof -
  have "\<forall>y < rows sample_image. \<forall>x < cols sample_image. \<forall>c < channels sample_image.
          at (fst (Erosion sample_env sample_image)) y x c \<le> at sample_image y x c"
    using erode_anti_extensive[OF valid_sample, of sample_env] by blast
  then show ?thesis
    using valid_sample by (simp add: dims_sample)
qed

text \<open>
  C3. For every environment, program name and input path, the run without an operation
  argument has the result of the run with the operation \<open>dilate\<close>: the same exit code,
  the same standard output and the same file system afterwards. The exit code and the
  file system are the same also when the two runs measure different times.
\<close>

theorem default_is_dilate:
  "main env prog [path] = main env prog [path, ''dilate''] \<and>
   exit_code (main (env\<lparr>elapsed := t\<rparr>) prog [path])
     = exit_code (main env prog [path, ''dilate'']) \<and>
   disk (main (env\<lparr>elapsed := t\<rparr>) prog [path])
     = disk (main env prog [path, ''dilate''])"
  by (simp add: main_def check_one check_two get_one get_two Dilation_def Let_def)

theorem default_is_dilate_witness:
  "main sample_env ''morph'' [''in.png''] = main sample_env ''morph'' [''in.png'', ''dilate'']
   \<and> exit_code (main sample_env ''morph'' [''in.png'', ''dilate'']) = 0"
proof -
  have "exit_code (main sample_env ''morph'' [''in.png'', ''dilate'']) = 0"
    using loads_sample by (simp add: main_def check_two get_two Let_def split: prod.split)
  then show ?thesis
    using default_is_dilate[of sample_env "''morph''" "''in.png''"] by simp
qed

text \<open>
  C4, as amended. For every run with an input path and an operation that is neither
  \<open>dilate\<close> nor \<open>erode\<close>, the program prints the usage message, exits with code 1 and
  leaves the file system as it was. Before the usage message it prints
  "Invalid morph operation!" when the input image loads, and
  "Could not open or find the image!" when it does not: the source tests the image
  before it looks at the operation.
\<close>

theorem invalid_operation:
  assumes "op \<noteq> ''dilate''" and "op \<noteq> ''erode''"
  shows "main env prog [path, op] =
           \<lparr>exit_code = 1,
            stdout =
              (if Mat_empty (imread (files env) (findFile env path))
               then [Str (''Could not open or find the image!'' @ [CHR 0x0A]), Endl]
               else [Str (''Invalid morph operation!'' @ [CHR 0x0A]), Endl])
              @ [Str ''Usage: '', Str prog, Str '' <Input image> [erode|dilate]'', Endl],
            disk = files env\<rparr>"
  using assms by (simp add: main_def check_two get_two printUsage_def)

theorem invalid_operation_witness:
  "''foo'' \<noteq> ''dilate'' \<and> ''foo'' \<noteq> ''erode'' \<and>
   main sample_env ''morph'' [''in.png'', ''foo''] =
     \<lparr>exit_code = 1,
      stdout = [Str (''Invalid morph operation!'' @ [CHR 0x0A]), Endl,
                Str ''Usage: '', Str ''morph'', Str '' <Input image> [erode|dilate]'', Endl],
      disk = files sample_env\<rparr>"
proof -
  have a: "''foo'' \<noteq> ''dilate''" and b: "''foo'' \<noteq> ''erode''" by simp_all
  show ?thesis
    using a b loads_sample invalid_operation[OF a b, of sample_env "''morph''" "''in.png''"]
    by simp
qed

text \<open>
  The claim as written fails where the image does not load: the operation \<open>foo\<close> is not
  reported.
\<close>

theorem invalid_operation_counterexample:
  "''foo'' \<noteq> ''dilate'' \<and> ''foo'' \<noteq> ''erode'' \<and>
   stdout (main sample_env ''morph'' [''missing.png'', ''foo'']) =
     [Str (''Could not open or find the image!'' @ [CHR 0x0A]), Endl,
      Str ''Usage: '', Str ''morph'', Str '' <Input image> [erode|dilate]'', Endl] \<and>
   Str (''Invalid morph operation!'' @ [CHR 0x0A])
     \<notin> set (stdout (main sample_env ''morph'' [''missing.png'', ''foo'']))"
  using missing_sample by (simp add: main_def check_two get_two printUsage_def)

text \<open>
  C5. For every run with an input path and at most one further argument, when the
  path does not load as an image (the file is missing, is not an image, or decodes to
  an empty matrix) the program prints "Could not open or find the image!" and the
  usage message, exits with code 1 and leaves the file system as it was, so it does
  not create \<^verbatim>\<open>output.png\<close>.
\<close>

theorem load_failure:
  assumes "length rest \<le> 1"
    and "Mat_empty (imread (files env) (findFile env path))"
  shows "main env prog (path # rest) =
           \<lparr>exit_code = 1,
            stdout = [Str (''Could not open or find the image!'' @ [CHR 0x0A]), Endl,
                      Str ''Usage: '', Str prog, Str '' <Input image> [erode|dilate]'', Endl],
            disk = files env\<rparr>"
proof (cases rest)
  case Nil
  then show ?thesis using assms(2)
    by (simp add: main_def check_one get_one printUsage_def)
next
  case (Cons op more)
  with assms(1) have "rest = [op]" by simp
  then show ?thesis using assms(2)
    by (simp add: main_def check_two get_two printUsage_def)
qed

theorem load_failure_witness:
  "length [''erode''] \<le> 1 \<and>
   Mat_empty (imread (files sample_env) (findFile sample_env ''notes.txt'')) \<and>
   exit_code (main sample_env ''morph'' [''notes.txt'', ''erode'']) = 1 \<and>
   disk (main sample_env ''morph'' [''notes.txt'', ''erode'']) ''output.png'' = None"
proof -
  have l: "length [''erode''] \<le> 1" by simp
  have e: "Mat_empty (imread (files sample_env) (findFile sample_env ''notes.txt''))"
    by (simp add: sample_env_def imread_def Mat_empty_def rows_def)
  have "files sample_env ''output.png'' = None" by (simp add: sample_env_def)
  then show ?thesis using l e load_failure[OF l e, of "''morph''"] by simp
qed

text \<open>
  C6. In every call of \<open>Dilation\<close> and of \<open>Erosion\<close> the element handed to the
  library is the rectangular element of size 11 by 11, that is
  \<open>2 * morph_size + 1\<close> on each side, with the anchor (5, 5). It does not depend
  on the image or on the environment. Its footprint is the square of the 121 offsets
  from -5 to 5 in each direction, so the anchor is its center.
\<close>

theorem structuring_element:
  "Dilation env src =
     (dilate (border_policy env) src (getStructuringElement MORPH_RECT (Size 11 11) (Point 5 5)),
      [Str ''Time taken to dilate: '', Num (elapsed env), Str '' microseconds'', Endl]) \<and>
   Erosion env src =
     (erode (border_policy env) src (getStructuringElement MORPH_RECT (Size 11 11) (Point 5 5)),
      [Str ''Time taken to erode: '', Num (elapsed env), Str '' microseconds'', Endl]) \<and>
   getStructuringElement MORPH_RECT (Size 11 11) (Point 5 5) =
     \<lparr>el_shape = MORPH_RECT, el_size = Size (2 * morph_size + 1) (2 * morph_size + 1),
      el_anchor = Point morph_size morph_size\<rparr> \<and>
   set (footprint (getStructuringElement MORPH_RECT (Size 11 11) (Point 5 5)))
     = {- 5..5} \<times> {- 5..5} \<and>
   length (footprint (getStructuringElement MORPH_RECT (Size 11 11) (Point 5 5))) = 121"
  by (simp add: Dilation_def Erosion_def morph_size_def Let_def footprint_program
      length_footprint) (simp add: getStructuringElement_def)

theorem structuring_element_witness:
  "Dilation sample_env sample_image =
     (dilate replicate_border sample_image
        (getStructuringElement MORPH_RECT (Size 11 11) (Point 5 5)),
      [Str ''Time taken to dilate: '', Num 42, Str '' microseconds'', Endl]) \<and>
   (0, 0) \<in> set (footprint (getStructuringElement MORPH_RECT (Size 11 11) (Point 5 5)))"
proof -
  have p: "border_policy sample_env = replicate_border" "elapsed sample_env = 42"
    by (simp_all add: sample_env_def)
  have "Dilation sample_env sample_image =
          (dilate (border_policy sample_env) sample_image
             (getStructuringElement MORPH_RECT (Size 11 11) (Point 5 5)),
           [Str ''Time taken to dilate: '', Num (elapsed sample_env),
            Str '' microseconds'', Endl])"
    using structuring_element[of sample_env sample_image] by blast
  moreover have "set (footprint (getStructuringElement MORPH_RECT (Size 11 11) (Point 5 5)))
                   = {- 5..5} \<times> {- 5..5}"
    using structuring_element[of sample_env sample_image] by blast
  ultimately show ?thesis by (simp add: p)
qed

text \<open>
  C7, as amended. On every run that exits with code 0 and whose write under the name
  \<^verbatim>\<open>output.png\<close> succeeds, the operation is \<open>dilate\<close> or \<open>erode\<close>, the loaded image is
  not empty, and the file system afterwards is the one before with \<^verbatim>\<open>output.png\<close>
  holding the transformed image, whatever that name held before. The written image has
  the rows, columns and channels of the loaded image, the matrix that \<^verbatim>\<open>imread\<close>
  returned.
\<close>

theorem output_written:
  assumes "exit_code (main env prog args) = 0"
    and "writable env ''output.png''"
  shows "let p = CommandLineParser args keys;
             src = imread (files env) (findFile env (get p ''@input''));
             dst = (if get p ''@morph'' = ''dilate'' then fst (Dilation env src)
                    else fst (Erosion env src))
         in (get p ''@morph'' = ''dilate'' \<or> get p ''@morph'' = ''erode'') \<and>
            \<not> Mat_empty src \<and>
            disk (main env prog args) = (files env)(''output.png'' \<mapsto> ImageFile dst) \<and>
            rows dst = rows src \<and> cols dst = cols src \<and> channels dst = channels src"
proof -
  let ?p = "CommandLineParser args keys"
  let ?src = "imread (files env) (findFile env (get ?p ''@input''))"
  from assms(1) have ne: "\<not> Mat_empty ?src"
    by (auto simp: main_def Let_def split: if_splits)
  from assms(1) have op: "get ?p ''@morph'' = ''dilate'' \<or> get ?p ''@morph'' = ''erode''"
    by (auto simp: main_def Let_def split: if_splits)
  from assms(1) have ck: "check ?p"
    by (auto simp: main_def Let_def split: if_splits)
  have d: "disk (main env prog args) = (files env)(''output.png'' \<mapsto> ImageFile
             (if get ?p ''@morph'' = ''dilate'' then fst (Dilation env ?src)
              else fst (Erosion env ?src)))"
    using ne op ck assms(2)
    by (auto simp: main_def Let_def imwrite_def split: prod.split)
  have dims: "rows (fst (Dilation env ?src)) = rows ?src"
    "cols (fst (Dilation env ?src)) = cols ?src"
    "channels (fst (Dilation env ?src)) = channels ?src"
    "rows (fst (Erosion env ?src)) = rows ?src"
    "cols (fst (Erosion env ?src)) = cols ?src"
    "channels (fst (Erosion env ?src)) = channels ?src"
    by (simp_all add: Dilation_fst Erosion_fst rows_morph cols_morph channels_morph[OF ne])
  show ?thesis
    unfolding Let_def using ne op d dims by simp
qed

theorem output_written_witness:
  "exit_code (main (sample_env\<lparr>files := (files sample_env)(''output.png'' \<mapsto> OtherFile)\<rparr>)
      ''morph'' [''in.png'', ''erode'']) = 0 \<and>
   writable (sample_env\<lparr>files := (files sample_env)(''output.png'' \<mapsto> OtherFile)\<rparr>)
      ''output.png'' \<and>
   disk (main (sample_env\<lparr>files := (files sample_env)(''output.png'' \<mapsto> OtherFile)\<rparr>)
      ''morph'' [''in.png'', ''erode'']) ''output.png'' =
     Some (ImageFile [[[1, 0, 3], [1, 0, 3]], [[1, 0, 3], [1, 0, 3]]]) \<and>
   rows (fst (Erosion sample_env sample_image)) = 2 \<and>
   cols (fst (Erosion sample_env sample_image)) = 2 \<and>
   channels (fst (Erosion sample_env sample_image)) = 3"
proof -
  let ?env = "sample_env\<lparr>files := (files sample_env)(''output.png'' \<mapsto> OtherFile)\<rparr>"
  have r: "imread ((files sample_env)(''output.png'' \<mapsto> OtherFile))
             (findFile sample_env ''in.png'') = sample_image"
    by (simp add: sample_env_def imread_def)
  have t: "fst (Erosion ?env sample_image) = fst (Erosion sample_env sample_image)"
    by (simp add: Erosion_def sample_env_def)
  have ne: "\<not> Mat_empty sample_image"
    using valid_sample by (simp add: valid_def)
  have e: "exit_code (main ?env ''morph'' [''in.png'', ''erode'']) = 0"
    by (simp add: main_def check_two get_two r ne Let_def split: prod.split)
  have w: "writable ?env ''output.png''"
    by (simp add: sample_env_def)
  have "disk (main ?env ''morph'' [''in.png'', ''erode'']) =
          (files ?env)(''output.png'' \<mapsto> ImageFile (fst (Erosion sample_env sample_image)))
        \<and> rows (fst (Erosion sample_env sample_image)) = rows sample_image
        \<and> cols (fst (Erosion sample_env sample_image)) = cols sample_image
        \<and> channels (fst (Erosion sample_env sample_image)) = channels sample_image"
    using output_written[OF e w] by (simp add: get_two r t Let_def)
  then show ?thesis
    using e w by (simp add: dims_sample Erosion_sample)
qed

text \<open>
  The claim as written fails on a run whose write does not succeed: the source ignores
  the answer of \<^verbatim>\<open>imwrite\<close>, so the run exits with code 0 and the file system is as
  it was, without \<^verbatim>\<open>output.png\<close>.
\<close>

theorem output_written_counterexample:
  "exit_code (main (sample_env\<lparr>writable := (\<lambda>name. False)\<rparr>)
      ''morph'' [''in.png'', ''erode'']) = 0 \<and>
   disk (main (sample_env\<lparr>writable := (\<lambda>name. False)\<rparr>)
      ''morph'' [''in.png'', ''erode'']) = files sample_env \<and>
   disk (main (sample_env\<lparr>writable := (\<lambda>name. False)\<rparr>)
      ''morph'' [''in.png'', ''erode'']) ''output.png'' = None"
proof -
  have r: "imread (files sample_env) (findFile sample_env ''in.png'') = sample_image"
    by (simp add: sample_env_def imread_def)
  have ne: "\<not> Mat_empty sample_image"
    using valid_sample by (simp add: valid_def)
  have n: "files sample_env ''output.png'' = None"
    by (simp add: sample_env_def)
  show ?thesis
    by (simp add: main_def check_two get_two r ne n imwrite_def Let_def split: prod.split)
qed

text \<open>
  C8, as amended. For every run whose arguments the parser rejects, the program prints
  the parser's error report and nothing else, exits with code 1 and leaves the file
  system as it was. The usage message is not printed on this path.
\<close>

theorem parser_rejects:
  assumes "\<not> check (CommandLineParser args keys)"
  shows "main env prog args = \<lparr>exit_code = 1, stdout = [ParserErrors], disk = files env\<rparr>"
  using assms by (simp add: main_def)

theorem parser_rejects_witness:
  "\<not> check (CommandLineParser [] keys) \<and>
   main sample_env ''morph'' [] = \<lparr>exit_code = 1, stdout = [ParserErrors], disk = files sample_env\<rparr>"
proof -
  have c: "\<not> check (CommandLineParser [] keys)" by (simp add: check_iff)
  show ?thesis using c parser_rejects[OF c, of sample_env "''morph''"] by simp
qed

text \<open>
  The claim as written fails on the run without arguments: the parser rejects it and
  no part of the usage message is printed.
\<close>

theorem parser_rejects_counterexample:
  "\<not> check (CommandLineParser [] keys) \<and>
   stdout (main sample_env ''morph'' []) = [ParserErrors] \<and>
   exit_code (main sample_env ''morph'' []) = 1 \<and>
   set (printUsage ''morph'') \<inter> set (stdout (main sample_env ''morph'' [])) = {}"
  by (simp add: main_def check_iff printUsage_def)

text \<open>
  C9. The image of \<open>h\<close> rows and \<open>w\<close> columns whose every pixel is the same color is
  returned unchanged by \<open>Dilation\<close> and by \<open>Erosion\<close>: the same dimensions and the
  same color at every pixel, under every border policy.
\<close>

theorem solid_fixed_point:
  "fst (Dilation env (solid h w color)) = solid h w color \<and>
   fst (Erosion env (solid h w color)) = solid h w color"
proof
  show "fst (Dilation env (solid h w color)) = solid h w color"
    unfolding Dilation_fst by (rule solid_morph) (rule fold_max_const, simp_all)
  show "fst (Erosion env (solid h w color)) = solid h w color"
    unfolding Erosion_fst by (rule solid_morph) (rule fold_min_const, simp_all add: uchar_le_255)
qed

theorem solid_fixed_point_witness:
  "valid (solid 2 3 [7, 8, 9]) \<and>
   fst (Dilation sample_env (solid 2 3 [7, 8, 9])) =
     [[[7, 8, 9], [7, 8, 9], [7, 8, 9]], [[7, 8, 9], [7, 8, 9], [7, 8, 9]]] \<and>
   fst (Erosion sample_env (solid 2 3 [7, 8, 9])) =
     [[[7, 8, 9], [7, 8, 9], [7, 8, 9]], [[7, 8, 9], [7, 8, 9], [7, 8, 9]]]"
proof -
  have s: "solid 2 3 [7, 8, 9] =
             [[[7, 8, 9], [7, 8, 9], [7, 8, 9]], [[7, 8, 9], [7, 8, 9], [7, 8, 9]]]"
    by (simp add: solid_def numeral_2_eq_2 numeral_3_eq_3)
  have v: "valid (solid 2 3 [7, 8, 9])"
    unfolding s by (simp add: valid_def Mat_empty_def rows_def cols_def channels_def)
  show ?thesis
    using v solid_fixed_point[of sample_env 2 3 "[7, 8, 9]"] by (simp add: s)
qed

text \<open>
  C10, as amended. The operation is matched exactly, character for character: for
  every run with an input path that loads and an operation, the exit code is 0 exactly
  when the operation is \<open>dilate\<close> or \<open>erode\<close>, and every other string takes the
  invalid-operation branch, which exits with code 1 and leaves the file system as it
  was. When the image does not load, the load-failure branch is taken before the
  operation is looked at.
\<close>

theorem exact_matching:
  assumes "\<not> Mat_empty (imread (files env) (findFile env path))"
  shows "(exit_code (main env prog [path, op]) = 0 \<longleftrightarrow> op = ''dilate'' \<or> op = ''erode'') \<and>
         (op \<noteq> ''dilate'' \<and> op \<noteq> ''erode'' \<longrightarrow>
            main env prog [path, op] =
              \<lparr>exit_code = 1,
               stdout = [Str (''Invalid morph operation!'' @ [CHR 0x0A]), Endl] @ printUsage prog,
               disk = files env\<rparr>)"
  using assms by (simp add: main_def check_two get_two Let_def split: prod.split)

theorem exact_matching_witness:
  "\<not> Mat_empty (imread (files sample_env) (findFile sample_env ''in.png'')) \<and>
   exit_code (main sample_env ''morph'' [''in.png'', ''Dilate'']) \<noteq> 0 \<and>
   exit_code (main sample_env ''morph'' [''in.png'', ''ERODE'']) \<noteq> 0 \<and>
   exit_code (main sample_env ''morph'' [''in.png'', ''dilate '']) \<noteq> 0 \<and>
   exit_code (main sample_env ''morph'' [''in.png'', ''erode'']) = 0"
  using exact_matching[OF loads_sample, of "''morph''" "''Dilate''"]
    exact_matching[OF loads_sample, of "''morph''" "''ERODE''"]
    exact_matching[OF loads_sample, of "''morph''" "''dilate ''"]
    exact_matching[OF loads_sample, of "''morph''" "''erode''"]
    loads_sample
  by simp

text \<open>
  The claim as written fails where the image does not load: the run with the operation
  \<open>Dilate\<close> ends in the load-failure branch, not in the invalid-operation branch.
\<close>

theorem exact_matching_counterexample:
  "''Dilate'' \<noteq> ''dilate'' \<and> ''Dilate'' \<noteq> ''erode'' \<and>
   main sample_env ''morph'' [''missing.png'', ''Dilate''] =
     \<lparr>exit_code = 1,
      stdout = [Str (''Could not open or find the image!'' @ [CHR 0x0A]), Endl,
                Str ''Usage: '', Str ''morph'', Str '' <Input image> [erode|dilate]'', Endl],
      disk = files sample_env\<rparr> \<and>
   main sample_env ''morph'' [''missing.png'', ''Dilate''] \<noteq>
     \<lparr>exit_code = 1,
      stdout = [Str (''Invalid morph operation!'' @ [CHR 0x0A]), Endl,
                Str ''Usage: '', Str ''morph'', Str '' <Input image> [erode|dilate]'', Endl],
      disk = files sample_env\<rparr>"
  using missing_sample by (simp add: main_def check_two get_two printUsage_def)

end
